theory Spec2Isabelle
  imports Complex_Main "HOL-Library.List_Lexorder" "HOL-Library.Char_ord"
begin

section \<open>Values, exceptions and outcomes\<close>

text \<open>
  The tracker of \<^verbatim>\<open>time_loguru/tracker.py\<close> is embedded with explicit state passing.
  A Python \<^verbatim>\<open>float\<close> is represented by the real number it denotes: the samples are
  finite (they come from \<^verbatim>\<open>time.perf_counter\<close>), so order, minimum, maximum and sign
  are exactly those of the reals; rounding of float addition, multiplication and division
  is idealised away. A Python \<^verbatim>\<open>str\<close> is a list of characters, one \<open>char\<close> for each
  character, and a \<open>char\<close> stands for the character with its code point, so the strings of
  the model are those over the code points below 256; the order of characters is the
  order of their code points, as in Python.

  An exception is a value carrying the name of its class and its message; a call either
  raises or returns.
\<close>

datatype exn = Exn (exn_type: string) (exn_msg: string)

datatype 'a outcome = Raised exn | Returned 'a

text \<open>
  Arguments that the source coerces (\<^verbatim>\<open>bool(emit_each)\<close>, \<^verbatim>\<open>str(summary_level)\<close>) or
  tests by membership (\<^verbatim>\<open>time_unit not in ("ms", "s")\<close>) are dynamically typed values.
\<close>

datatype pyval = PStr string | PInt int | PBool bool

section \<open>Strings and number formatting\<close>

definition digit_char :: "nat \<Rightarrow> char" where
  "digit_char d = ''0123456789'' ! d"

fun str_nat :: "nat \<Rightarrow> string" where
  "str_nat n = (if n < 10 then [digit_char n] else str_nat (n div 10) @ [digit_char (n mod 10)])"

declare str_nat.simps [simp del]

definition str_int :: "int \<Rightarrow> string" where
  "str_int i = (if i < 0 then ''-'' @ str_nat (nat (- i)) else str_nat (nat i))"

fun py_str :: "pyval \<Rightarrow> string" where
  "py_str (PStr s) = s"
| "py_str (PInt i) = str_int i"
| "py_str (PBool b) = (if b then ''True'' else ''False'')"

fun py_bool :: "pyval \<Rightarrow> bool" where
  "py_bool (PStr s) = (s \<noteq> [])"
| "py_bool (PInt i) = (i \<noteq> 0)"
| "py_bool (PBool b) = b"

text \<open>\<^verbatim>\<open>f"{s:30}"\<close> pads a string on the right, \<^verbatim>\<open>f"{s:>14}"\<close> and \<^verbatim>\<open>f"{n:7d}"\<close> on the left;
  none of them truncates.\<close>

definition ljust :: "nat \<Rightarrow> string \<Rightarrow> string" where
  "ljust w s = s @ replicate (w - length s) (CHR '' '')"

definition rjust :: "nat \<Rightarrow> string \<Rightarrow> string" where
  "rjust w s = replicate (w - length s) (CHR '' '') @ s"

definition zfill :: "nat \<Rightarrow> string \<Rightarrow> string" where
  "zfill w s = replicate (w - length s) (CHR ''0'') @ s"

text \<open>\<^verbatim>\<open>sep.join(lines)\<close>.\<close>

fun join :: "string \<Rightarrow> string list \<Rightarrow> string" where
  "join sep [] = []"
| "join sep [x] = x"
| "join sep (x # y # ys) = x @ sep @ join sep (y # ys)"

text \<open>
  \<^verbatim>\<open>f"{x:.3f}"\<close> and \<^verbatim>\<open>f"{x:.6f}"\<close>: the decimal expansion of the value rounded to
  \<open>p\<close> places, ties to even, with the sign in front.
\<close>

definition round_half_even :: "real \<Rightarrow> int" where
  "round_half_even y =
     (let f = \<lfloor>y\<rfloor>; r = y - of_int f
      in if r < 1 / 2 then f else if 1 / 2 < r then f + 1 else if even f then f else f + 1)"

definition fmt_fixed :: "nat \<Rightarrow> real \<Rightarrow> string" where
  "fmt_fixed p x =
     (let n = nat (round_half_even (\<bar>x\<bar> * 10 ^ p));
          ip = n div 10 ^ p;
          fp = n mod 10 ^ p
      in (if x < 0 then ''-'' else '''') @ str_nat ip
         @ (if p = 0 then '''' else ''.'' @ zfill p (str_nat fp)))"

text \<open>
  \<^verbatim>\<open>str.strip()\<close> removes leading and trailing whitespace. The whitespace characters of
  Python are the code points below, in the whole of Unicode; a \<open>char\<close> is whitespace when
  its code point is one of them.
\<close>

definition py_whitespace :: "nat \<Rightarrow> bool" where
  "py_whitespace cp =
     (cp \<in> set [0x09, 0x0A, 0x0B, 0x0C, 0x0D, 0x1C, 0x1D, 0x1E, 0x1F, 0x20, 0x85, 0xA0,
                 0x1680, 0x2000, 0x2001, 0x2002, 0x2003, 0x2004, 0x2005, 0x2006, 0x2007,
                 0x2008, 0x2009, 0x200A, 0x2028, 0x2029, 0x202F, 0x205F, 0x3000])"

definition is_space :: "char \<Rightarrow> bool" where
  "is_space c = py_whitespace (of_char c)"

definition strip :: "string \<Rightarrow> string" where
  "strip s = rev (dropWhile is_space (rev (dropWhile is_space s)))"

text \<open>
  \<^verbatim>\<open>str.lower()\<close>: below code point 256 the characters with a lower-case form are
  \<open>A\<close>..\<open>Z\<close> and the letters at \<open>0xC0\<close>..\<open>0xDE\<close> other than the multiplication sign
  \<open>0xD7\<close>; the lower-case form is 32 code points further on.
\<close>

definition upper_chars :: string where
  "upper_chars = ''ABCDEFGHIJKLMNOPQRSTUVWXYZ'' @
     [CHR 0xC0, CHR 0xC1, CHR 0xC2, CHR 0xC3, CHR 0xC4, CHR 0xC5, CHR 0xC6, CHR 0xC7,
      CHR 0xC8, CHR 0xC9, CHR 0xCA, CHR 0xCB, CHR 0xCC, CHR 0xCD, CHR 0xCE, CHR 0xCF,
      CHR 0xD0, CHR 0xD1, CHR 0xD2, CHR 0xD3, CHR 0xD4, CHR 0xD5, CHR 0xD6,
      CHR 0xD8, CHR 0xD9, CHR 0xDA, CHR 0xDB, CHR 0xDC, CHR 0xDD, CHR 0xDE]"

definition lower_chars :: string where
  "lower_chars = ''abcdefghijklmnopqrstuvwxyz'' @
     [CHR 0xE0, CHR 0xE1, CHR 0xE2, CHR 0xE3, CHR 0xE4, CHR 0xE5, CHR 0xE6, CHR 0xE7,
      CHR 0xE8, CHR 0xE9, CHR 0xEA, CHR 0xEB, CHR 0xEC, CHR 0xED, CHR 0xEE, CHR 0xEF,
      CHR 0xF0, CHR 0xF1, CHR 0xF2, CHR 0xF3, CHR 0xF4, CHR 0xF5, CHR 0xF6,
      CHR 0xF8, CHR 0xF9, CHR 0xFA, CHR 0xFB, CHR 0xFC, CHR 0xFD, CHR 0xFE]"

definition lower_char :: "char \<Rightarrow> char" where
  "lower_char c = (case map_of (zip upper_chars lower_chars) c of Some l \<Rightarrow> l | None \<Rightarrow> c)"

definition lower :: "string \<Rightarrow> string" where
  "lower s = map lower_char s"

section \<open>Built-ins on lists of floats\<close>

text \<open>\<^verbatim>\<open>sum(d)\<close> adds from the left, starting at 0. \<^verbatim>\<open>min(d)\<close> and \<^verbatim>\<open>max(d)\<close> keep the first
  element and replace it by a later one that is strictly smaller (larger); they are only
  called on a non-empty list, given here by its head and tail. \<^verbatim>\<open>max(a, b)\<close> is the
  two-argument case.\<close>

definition py_sum :: "real list \<Rightarrow> real" where
  "py_sum d = foldl (+) 0 d"

definition py_min :: "real \<Rightarrow> real list \<Rightarrow> real" where
  "py_min x xs = foldl (\<lambda>m y. if y < m then y else m) x xs"

definition py_max :: "real \<Rightarrow> real list \<Rightarrow> real" where
  "py_max x xs = foldl (\<lambda>m y. if m < y then y else m) x xs"

definition py_max2 :: "real \<Rightarrow> real \<Rightarrow> real" where
  "py_max2 a b = py_max a [b]"

text \<open>\<^verbatim>\<open>list.sort(key=f, reverse=r)\<close> is a stable sort; with \<^verbatim>\<open>reverse=True\<close> elements with
  equal keys still keep their original order.\<close>

definition py_sort :: "('a \<Rightarrow> 'k::linorder) \<Rightarrow> bool \<Rightarrow> 'a list \<Rightarrow> 'a list" where
  "py_sort f reverse xs = (if reverse then rev (sort_key f (rev xs)) else sort_key f xs)"

section \<open>The data model\<close>

text \<open>\<^verbatim>\<open>TaskStats\<close>, the frozen dataclass.\<close>

record TaskStats =
  task :: string
  count :: int
  total_s :: real
  avg_s :: real
  min_s :: real
  max_s :: real
  last_s :: real

text \<open>
  The Logger Collaborator (loguru) is not part of the repository; it is a parameter of
  the model. What the tracker needs of it is that \<^verbatim>\<open>log(level, message)\<close> raises
  \<^verbatim>\<open>ValueError\<close> for a level name the logger does not know and otherwise hands the
  message, with the values bound to it, to its sinks. A logger is therefore the list of
  level names it knows and the messages it has emitted so far.
\<close>

datatype binding = BStr string | BFloat real

record log_record =
  level :: string
  message :: string
  raw :: bool
  extra :: "(string \<times> binding) list"

record logger =
  levels :: "string list"
  emitted :: "log_record list"

definition level_error :: "string \<Rightarrow> exn" where
  "level_error l = Exn ''ValueError'' (''Level '' @ [CHR 0x27] @ l @ [CHR 0x27] @ '' does not exist'')"

definition logger_log :: "log_record \<Rightarrow> logger \<Rightarrow> unit outcome \<times> logger" where
  "logger_log r L =
     (if level r \<in> set (levels L) then (Returned (), L\<lparr>emitted := emitted L @ [r]\<rparr>)
      else (Raised (level_error (level r)), L))"

text \<open>
  The state of a \<^verbatim>\<open>TimeTracker\<close>. \<^verbatim>\<open>_records\<close> is a \<^verbatim>\<open>dict\<close>, which keeps its keys in
  insertion order (the order \<^verbatim>\<open>items()\<close> yields and a stable sort starts from): an
  association list. The lock has no content in a sequential model.
\<close>

record tracker =
  logger :: logger
  records :: "(string \<times> real list) list"
  emit_each :: bool
  time_unit :: string
  summary_level :: string
  event_sink_ids :: "int list"

text \<open>\<^verbatim>\<open>TimeTracker.__init__\<close>: the first argument is the \<^verbatim>\<open>logger\<close> keyword, the second
  the module-level \<^verbatim>\<open>_loguru_logger\<close> (\<open>None\<close> when loguru could not be imported).\<close>

definition init :: "logger option \<Rightarrow> logger option \<Rightarrow> tracker outcome" where
  "init lg loguru_logger =
     (case (case lg of Some L \<Rightarrow> Some L | None \<Rightarrow> loguru_logger) of
        None \<Rightarrow> Raised (Exn ''RuntimeError''
                  ''loguru is not installed. Install loguru or pass a compatible logger.'')
      | Some L \<Rightarrow> Returned \<lparr>logger = L, records = [], emit_each = False, time_unit = ''s'',
                   summary_level = ''INFO'', event_sink_ids = []\<rparr>)"

text \<open>\<^verbatim>\<open>_TaskContext\<close>; its reference to the tracker is the state that is passed along.\<close>

record TaskContext =
  ctx_task :: string
  ctx_level_name :: string
  t0 :: "real option"

section \<open>The Sample Store\<close>

text \<open>\<^verbatim>\<open>self._records.setdefault(task, []).append(elapsed_s)\<close>: an existing key keeps its
  place and gets the sample at the end of its list; a new key goes to the end.\<close>

fun setdefault_append :: "string \<Rightarrow> real \<Rightarrow> (string \<times> real list) list \<Rightarrow> (string \<times> real list) list" where
  "setdefault_append k v [] = [(k, [v])]"
| "setdefault_append k v ((k', d) # rest) =
     (if k' = k then (k', d @ [v]) # rest else (k', d) # setdefault_append k v rest)"

definition clear :: "tracker \<Rightarrow> tracker" where
  "clear s = s\<lparr>records := []\<rparr>"

section \<open>Formatting and statistics\<close>

definition fmt_time :: "tracker \<Rightarrow> real \<Rightarrow> string" where
  "fmt_time s seconds =
     (if time_unit s = ''ms'' then fmt_fixed 3 (seconds * 1000) @ '' ms''
      else fmt_fixed 6 seconds @ '' s'')"

text \<open>The loop of \<^verbatim>\<open>_compute_stats\<close> over \<^verbatim>\<open>items\<close>; an empty sample list is skipped.\<close>

fun stats_loop :: "(string \<times> real list) list \<Rightarrow> TaskStats list" where
  "stats_loop [] = []"
| "stats_loop ((t, []) # items) = stats_loop items"
| "stats_loop ((t, x # xs) # items) =
     (let total = py_sum (x # xs); n = int (length (x # xs))
      in \<lparr>task = t, count = n, total_s = total, avg_s = total / of_int n,
          min_s = py_min x xs, max_s = py_max x xs, last_s = last (x # xs)\<rparr>)
     # stats_loop items"

definition compute_stats :: "tracker \<Rightarrow> TaskStats list" where
  "compute_stats s = stats_loop (records s)"

section \<open>Recording\<close>

text \<open>\<^verbatim>\<open>_record\<close>: the append comes first; the event is emitted only with \<^verbatim>\<open>emit_each\<close>.
  \<open>exc_type\<close> is the name of the exception class, \<open>None\<close> on a normal exit.\<close>

definition record_event :: "tracker \<Rightarrow> string \<Rightarrow> real \<Rightarrow> string \<Rightarrow> string option \<Rightarrow> log_record" where
  "record_event s t elapsed_s level_name exc_type =
     (let status = (case exc_type of None \<Rightarrow> ''OK'' | Some n \<Rightarrow> ''EXC:'' @ n)
      in \<lparr>level = level_name,
          message = ''task='' @ t @ '' | elapsed='' @ fmt_time s elapsed_s,
          raw = False,
          extra = [(''event'', BStr ''time_logger''), (''kind'', BStr ''event''),
                   (''task'', BStr t), (''elapsed_s'', BFloat elapsed_s),
                   (''status'', BStr status)]\<rparr>)"

definition record_sample :: "string \<Rightarrow> real \<Rightarrow> string \<Rightarrow> string option \<Rightarrow> tracker \<Rightarrow> unit outcome \<times> tracker" where
  "record_sample t elapsed_s level_name exc_type s =
     (let s1 = s\<lparr>records := setdefault_append t elapsed_s (records s)\<rparr>
      in if emit_each s1
         then (case logger_log (record_event s1 t elapsed_s level_name exc_type) (logger s1) of
                 (r, L) \<Rightarrow> (r, s1\<lparr>logger := L\<rparr>))
         else (Returned (), s1))"

section \<open>The Scoped Timer\<close>

text \<open>\<^verbatim>\<open>_ctx\<close> and the seven entry points.\<close>

definition ctx :: "string \<Rightarrow> string \<Rightarrow> TaskContext outcome" where
  "ctx t level_name =
     (if strip t = [] then Raised (Exn ''ValueError'' ''task name must be a non-empty string'')
      else Returned \<lparr>ctx_task = strip t, ctx_level_name = level_name, t0 = None\<rparr>)"

definition trace :: "string \<Rightarrow> TaskContext outcome" where
  "trace t = ctx t ''TRACE''"

definition debug :: "string \<Rightarrow> TaskContext outcome" where
  "debug t = ctx t ''DEBUG''"

definition info :: "string \<Rightarrow> TaskContext outcome" where
  "info t = ctx t ''INFO''"

definition success :: "string \<Rightarrow> TaskContext outcome" where
  "success t = ctx t ''SUCCESS''"

definition warning :: "string \<Rightarrow> TaskContext outcome" where
  "warning t = ctx t ''WARNING''"

definition error :: "string \<Rightarrow> TaskContext outcome" where
  "error t = ctx t ''ERROR''"

definition critical :: "string \<Rightarrow> TaskContext outcome" where
  "critical t = ctx t ''CRITICAL''"

text \<open>\<^verbatim>\<open>__enter__\<close> and \<^verbatim>\<open>__exit__\<close>; the reading of \<^verbatim>\<open>time.perf_counter()\<close> is an
  argument. \<^verbatim>\<open>__exit__\<close> returns \<open>False\<close> unless \<^verbatim>\<open>_record\<close> raised.\<close>

definition enter :: "real \<Rightarrow> TaskContext \<Rightarrow> TaskContext" where
  "enter now c = c\<lparr>t0 := Some now\<rparr>"

definition elapsed_of :: "TaskContext \<Rightarrow> real \<Rightarrow> real" where
  "elapsed_of c t1 = (let t0v = (case t0 c of Some v \<Rightarrow> v | None \<Rightarrow> t1) in py_max2 0 (t1 - t0v))"

definition exit_ctx :: "TaskContext \<Rightarrow> real \<Rightarrow> string option \<Rightarrow> tracker \<Rightarrow> bool outcome \<times> tracker" where
  "exit_ctx c t1 exc_type s =
     (case record_sample (ctx_task c) (elapsed_of c t1) (ctx_level_name c) exc_type s of
        (Raised e, s') \<Rightarrow> (Raised e, s')
      | (Returned u, s') \<Rightarrow> (Returned False, s'))"

text \<open>
  The statement \<^verbatim>\<open>with mgr: body\<close>, where \<open>mgr\<close> is the result of an entry point. The
  guarded block is any code acting on the tracker; \<open>t_enter\<close> and \<open>t_exit\<close> are the two
  clock readings. When \<^verbatim>\<open>__exit__\<close> returns a true value after an exception the statement
  completes without a value (\<open>Returned None\<close>); when it returns a false one the
  exception is raised again.
\<close>

definition with_block :: "TaskContext outcome \<Rightarrow> real \<Rightarrow> real \<Rightarrow> (tracker \<Rightarrow> 'a outcome \<times> tracker) \<Rightarrow> tracker \<Rightarrow> 'a option outcome \<times> tracker" where
  "with_block mgr t_enter t_exit body s =
     (case mgr of
        Raised e \<Rightarrow> (Raised e, s)
      | Returned c \<Rightarrow>
          (let c1 = enter t_enter c in
           case body s of
             (Returned v, s1) \<Rightarrow>
               (case exit_ctx c1 t_exit None s1 of
                  (Raised e', s2) \<Rightarrow> (Raised e', s2)
                | (Returned b, s2) \<Rightarrow> (Returned (Some v), s2))
           | (Raised e, s1) \<Rightarrow>
               (case exit_ctx c1 t_exit (Some (exn_type e)) s1 of
                  (Raised e', s2) \<Rightarrow> (Raised e', s2)
                | (Returned b, s2) \<Rightarrow> (if b then (Returned None, s2) else (Raised e, s2)))))"

section \<open>Configuration\<close>

text \<open>\<^verbatim>\<open>configure\<close>: the three keyword arguments are handled in the order of the source, so
  an exception leaves the assignments made before it in place. A successful call returns
  \<^verbatim>\<open>self\<close>, the tracker in its new state.\<close>

definition time_unit_error :: exn where
  \<open>time_unit_error = Exn ''ValueError'' ''time_unit must be "ms" or "s"''\<close>

definition configure :: "pyval option \<Rightarrow> pyval option \<Rightarrow> pyval option \<Rightarrow> tracker \<Rightarrow> tracker outcome \<times> tracker" where
  "configure emit_each_arg time_unit_arg summary_level_arg s =
     (let s1 = (case emit_each_arg of None \<Rightarrow> s | Some v \<Rightarrow> s\<lparr>emit_each := py_bool v\<rparr>) in
      case (case time_unit_arg of
              None \<Rightarrow> Returned s1
            | Some u \<Rightarrow>
                if u \<notin> set [PStr ''ms'', PStr ''s'']
                then Raised time_unit_error
                else Returned (s1\<lparr>time_unit := py_str u\<rparr>)) of
        Raised e \<Rightarrow> (Raised e, s1)
      | Returned s2 \<Rightarrow>
          (let s3 = (case summary_level_arg of None \<Rightarrow> s2
                     | Some v \<Rightarrow> s2\<lparr>summary_level := py_str v\<rparr>)
           in (Returned s3, s3)))"

section \<open>Summary\<close>

definition header :: string where
  "header = ljust 30 ''TASK'' @ ''  '' @ rjust 7 ''COUNT'' @ ''  '' @ rjust 14 ''TOTAL'' @ ''  ''
     @ rjust 14 ''AVG'' @ ''  '' @ rjust 14 ''MIN'' @ ''  '' @ rjust 14 ''MAX'' @ ''  ''
     @ rjust 14 ''LAST''"

definition row :: "tracker \<Rightarrow> TaskStats \<Rightarrow> string" where
  "row s st = ljust 30 (take 30 (task st)) @ ''  '' @ rjust 7 (str_int (count st)) @ ''  ''
     @ rjust 14 (fmt_time s (total_s st)) @ ''  '' @ rjust 14 (fmt_time s (avg_s st)) @ ''  ''
     @ rjust 14 (fmt_time s (min_s st)) @ ''  '' @ rjust 14 (fmt_time s (max_s st)) @ ''  ''
     @ rjust 14 (fmt_time s (last_s st))"

definition total_row :: "tracker \<Rightarrow> TaskStats list \<Rightarrow> string" where
  "total_row s stats = ljust 30 ''TOTAL (all tasks)'' @ ''  '' @ ljust 7 [] @ ''  ''
     @ rjust 14 (fmt_time s (py_sum (map total_s stats)))"

definition rule_line :: "nat \<Rightarrow> string" where
  "rule_line n = replicate n (CHR ''-'')"

definition render_summary :: "tracker \<Rightarrow> TaskStats list \<Rightarrow> string \<Rightarrow> string" where
  "render_summary s stats title =
     (let lines = [title, rule_line (max 24 (length title))] in
      if stats = [] then join [CHR 0x0A] (lines @ [''(no data)''])
      else join [CHR 0x0A]
             (lines @ [header, rule_line (length header)] @ map (row s) stats
              @ [rule_line (length header), total_row s stats]))"

text \<open>The keys of \<^verbatim>\<open>key_funcs\<close>, in the order of the dictionary, and the sort by each.\<close>

definition key_names :: "string list" where
  "key_names = [''total'', ''avg'', ''count'', ''max'', ''min'', ''task'']"

definition sort_stats :: "string \<Rightarrow> bool \<Rightarrow> TaskStats list \<Rightarrow> TaskStats list" where
  "sort_stats sort_by descending stats =
     (if sort_by = ''total'' then py_sort total_s descending stats
      else if sort_by = ''avg'' then py_sort avg_s descending stats
      else if sort_by = ''count'' then py_sort count descending stats
      else if sort_by = ''max'' then py_sort max_s descending stats
      else if sort_by = ''min'' then py_sort min_s descending stats
      else py_sort (\<lambda>st. lower (task st)) descending stats)"

definition limit_stats :: "int option \<Rightarrow> TaskStats list \<Rightarrow> TaskStats list" where
  "limit_stats limit stats = (case limit of None \<Rightarrow> stats | Some l \<Rightarrow> take (nat (max 0 l)) stats)"

definition summary_record :: "tracker \<Rightarrow> string \<Rightarrow> log_record" where
  "summary_record s rendered =
     \<lparr>level = summary_level s, message = rendered @ [CHR 0x0A], raw = True,
      extra = [(''event'', BStr ''time_logger''), (''kind'', BStr ''summary'')]\<rparr>"

definition summary :: "string \<Rightarrow> bool \<Rightarrow> int option \<Rightarrow> bool \<Rightarrow> string \<Rightarrow> tracker \<Rightarrow> string outcome \<times> tracker" where
  "summary sort_by descending limit reset title s =
     (let stats = compute_stats s in
      if sort_by \<notin> set key_names
      then (Raised (Exn ''ValueError'' (''sort_by must be one of: '' @ join '', '' key_names)), s)
      else
        (let stats1 = limit_stats limit (sort_stats sort_by descending stats);
             rendered = render_summary s stats1 title
         in case logger_log (summary_record s rendered) (logger s) of
              (Raised e, L) \<Rightarrow> (Raised e, s\<lparr>logger := L\<rparr>)
            | (Returned u, L) \<Rightarrow>
                (let s1 = s\<lparr>logger := L\<rparr>
                 in (Returned rendered, if reset then clear s1 else s1))))"

section \<open>A tracker to run the model on\<close>

text \<open>loguru's seven built-in levels, a logger that knows exactly these, and the tracker
  \<^verbatim>\<open>TimeTracker(logger=...)\<close> constructs on it.\<close>

definition std_levels :: "string list" where
  "std_levels = [''TRACE'', ''DEBUG'', ''INFO'', ''SUCCESS'', ''WARNING'', ''ERROR'', ''CRITICAL'']"

definition std_logger :: logger where
  "std_logger = \<lparr>levels = std_levels, emitted = []\<rparr>"

definition new_tracker :: tracker where
  "new_tracker = \<lparr>logger = std_logger, records = [], emit_each = False, time_unit = ''s'',
     summary_level = ''INFO'', event_sink_ids = []\<rparr>"

text \<open>A compatible logger without loguru's level \<open>SUCCESS\<close>, and a guarded block that
  raises \<^verbatim>\<open>KeyError\<close> and does nothing else.\<close>

definition plain_logger :: logger where
  "plain_logger = \<lparr>levels = [''DEBUG'', ''INFO'', ''WARNING'', ''ERROR'', ''CRITICAL''], emitted = []\<rparr>"

definition failing_body :: "tracker \<Rightarrow> unit outcome \<times> tracker" where
  "failing_body s = (Raised (Exn ''KeyError'' ''k''), s)"

section \<open>What the summary is required to do\<close>

text \<open>
  The order the spec asks of the table: a record stands before another only if its key
  is not larger (ascending) or not smaller (descending). The key of \<open>task\<close> is the name
  in lower case. This definition states the requirement; \<open>sort_stats\<close> is the code.
\<close>

definition ordered_by :: "string \<Rightarrow> bool \<Rightarrow> TaskStats \<Rightarrow> TaskStats \<Rightarrow> bool" where
  "ordered_by sort_by descending a b =
     (let x = (if descending then b else a); y = (if descending then a else b)
      in if sort_by = ''total'' then total_s x \<le> total_s y
         else if sort_by = ''avg'' then avg_s x \<le> avg_s y
         else if sort_by = ''count'' then count x \<le> count y
         else if sort_by = ''max'' then max_s x \<le> max_s y
         else if sort_by = ''min'' then min_s x \<le> min_s y
         else lower (task x) \<le> lower (task y))"

text \<open>The tracker of the spec's example: tasks \<open>A\<close>, \<open>B\<close>, \<open>C\<close> with totals 5, 1 and 3.\<close>

definition abc_tracker :: tracker where
  "abc_tracker = new_tracker\<lparr>records := [(''A'', [2, 3]), (''B'', [1]), (''C'', [3])]\<rparr>"

section \<open>Facts about the built-ins\<close>

lemma str_nat_small: "n < 10 \<Longrightarrow> str_nat n = [digit_char n]"
  by (simp add: str_nat.simps)

lemma str_nat_big: "10 \<le> n \<Longrightarrow> str_nat n = str_nat (n div 10) @ [digit_char (n mod 10)]"
  by (subst str_nat.simps) simp

lemma replicate_num: "replicate (numeral k) x = x # replicate (pred_numeral k) x"
  by (simp add: numeral_eq_Suc)

lemmas fmt_eval = fmt_time_def fmt_fixed_def round_half_even_def zfill_def str_nat_small
  str_nat_big digit_char_def replicate_num

lemma foldl_add_sum_list: "foldl (+) a d = a + sum_list (d::real list)"
  by (induction d arbitrary: a) simp_all

lemma py_sum_sum_list: "py_sum d = sum_list d"
  by (simp add: py_sum_def foldl_add_sum_list)

lemma foldl_min_Min: "foldl (\<lambda>m y. if y < m then y else m) (x::real) xs = Min (set (x # xs))"
proof (induction xs arbitrary: x)
  case Nil
  show ?case by simp
next
  case (Cons y ys)
  have "Min (set ((if y < x then y else x) # ys)) = Min (set (x # y # ys))"
    by (cases ys) (auto simp: min_def)
  with Cons show ?case by simp
qed

lemma foldl_max_Max: "foldl (\<lambda>m y. if m < y then y else m) (x::real) xs = Max (set (x # xs))"
proof (induction xs arbitrary: x)
  case Nil
  show ?case by simp
next
  case (Cons y ys)
  have "Max (set ((if x < y then y else x) # ys)) = Max (set (x # y # ys))"
    by (cases ys) (auto simp: max_def)
  with Cons show ?case by simp
qed

lemma py_min_Min: "py_min x xs = Min (set (x # xs))"
  by (simp add: py_min_def foldl_min_Min)

lemma py_max_Max: "py_max x xs = Max (set (x # xs))"
  by (simp add: py_max_def foldl_max_Max)

lemma py_max2_max: "py_max2 a b = max a b"
  by (simp add: py_max2_def py_max_def max_def)

section \<open>The Sample Store keeps its keys unique and its samples in order\<close>

lemma keys_setdefault_append:
  "map fst (setdefault_append k v xs) =
     (if k \<in> fst ` set xs then map fst xs else map fst xs @ [k])"
  by (induction xs) (auto simp: image_iff, force+)

lemma distinct_setdefault_append:
  "distinct (map fst xs) \<Longrightarrow> distinct (map fst (setdefault_append k v xs))"
  by (simp add: keys_setdefault_append)

lemma map_of_setdefault_append:
  "map_of (setdefault_append k v xs) k' =
     (if k' = k then Some ((case map_of xs k of None \<Rightarrow> [] | Some d \<Rightarrow> d) @ [v])
      else map_of xs k')"
  by (induction xs) auto

lemma records_record_sample:
  "records (snd (record_sample t x lvl exc s)) = setdefault_append t x (records s)"
  by (simp add: record_sample_def Let_def split: prod.splits)

lemma records_exit_ctx:
  "records (snd (exit_ctx c t1 exc s)) =
     setdefault_append (ctx_task c) (elapsed_of c t1) (records s)"
  using records_record_sample [of "ctx_task c" "elapsed_of c t1" "ctx_level_name c" exc s]
  by (auto simp: exit_ctx_def split: prod.splits outcome.splits)

lemma elapsed_of_enter: "elapsed_of (enter t_start c) t_end = max 0 (t_end - t_start)"
  by (simp add: elapsed_of_def enter_def py_max2_max)

lemma init_new_tracker: "init (Some std_logger) None = Returned new_tracker"
  by (simp add: init_def new_tracker_def)

section \<open>Statistics\<close>

lemma stats_loop_tasks: "task ` set (stats_loop items) \<subseteq> fst ` set items"
  by (induction items rule: stats_loop.induct) (auto simp: Let_def)

lemma stats_loop_absent:
  "t \<notin> fst ` set items \<Longrightarrow> filter (\<lambda>st. task st = t) (stats_loop items) = []"
  using stats_loop_tasks [of items] by (auto simp: filter_empty_conv)

lemma stats_loop_present:
  "distinct (map fst items) \<Longrightarrow> map_of items t = Some d \<Longrightarrow> d \<noteq> [] \<Longrightarrow>
   filter (\<lambda>st. task st = t) (stats_loop items) =
     [\<lparr>task = t, count = int (length d), total_s = sum_list d,
       avg_s = sum_list d / of_int (int (length d)), min_s = Min (set d), max_s = Max (set d),
       last_s = last d\<rparr>]"
proof (induction items rule: stats_loop.induct)
  case 1
  then show ?case by simp
next
  case (2 t' items)
  then show ?case by (auto split: if_splits)
next
  case (3 t' x xs items)
  show ?case
  proof (cases "t' = t")
    case True
    with 3 have d: "d = x # xs" and "t \<notin> fst ` set items" by auto
    then show ?thesis using True
      by (simp add: stats_loop_absent Let_def py_sum_sum_list py_min_Min py_max_Max)
  next
    case False
    with 3 show ?thesis by (simp add: Let_def)
  qed
qed

text \<open>
  Claim C1. For every task with \<open>N \<ge> 1\<close> recorded samples \<open>d\<close> in the Sample Store,
  \<^verbatim>\<open>_compute_stats\<close> yields exactly one record for that task, and in it \<open>count = N\<close>,
  \<open>total\<close> is the sum of the samples, \<open>avg = total / count\<close>, \<open>min\<close> and \<open>max\<close> are the
  smallest and the largest sample, and \<open>last\<close> is the \<open>N\<close>-th sample, the one appended most
  recently. The keys of the store are unique, as those of a \<^verbatim>\<open>dict\<close> are.
\<close>

theorem compute_stats_record:
  assumes "distinct (map fst (records s))"
    and "map_of (records s) t = Some d"
    and "d \<noteq> []"
  shows "\<exists>st. filter (\<lambda>r. task r = t) (compute_stats s) = [st]
    \<and> count st = int (length d)
    \<and> total_s st = sum_list d
    \<and> avg_s st = total_s st / of_int (count st)
    \<and> min_s st = Min (set d)
    \<and> max_s st = Max (set d)
    \<and> last_s st = d ! (length d - 1)"
  using stats_loop_present [OF assms] assms(3)
  by (simp add: compute_stats_def last_conv_nth)

theorem compute_stats_record_witness:
  "\<exists>st. filter (\<lambda>r. task r = ''B'')
          (compute_stats (new_tracker\<lparr>records := [(''A'', [4]), (''B'', [2, 1/2, 3])]\<rparr>)) = [st]
    \<and> count st = 3 \<and> total_s st = 11/2 \<and> avg_s st = 11/6 \<and> min_s st = 1/2
    \<and> max_s st = 3 \<and> last_s st = 3"
  using compute_stats_record [of "new_tracker\<lparr>records := [(''A'', [4]), (''B'', [2, 1/2, 3])]\<rparr>"
      "''B''" "[2, 1/2, 3]"]
  by (auto simp: new_tracker_def)

section \<open>The Scoped Timer\<close>

text \<open>
  Claim C3. For every pair of clock readings \<open>t_start\<close> (taken by \<^verbatim>\<open>__enter__\<close>) and
  \<open>t_end\<close> (taken by \<^verbatim>\<open>__exit__\<close>) the elapsed duration reported on release is
  \<open>max 0 (t_end - t_start)\<close>; it is never negative, also when \<open>t_end < t_start\<close>; and it is
  the sample appended to the Sample Store under the timer's task.
\<close>

theorem exit_elapsed_clamped:
  "elapsed_of (enter t_start c) t_end = max 0 (t_end - t_start)
   \<and> 0 \<le> elapsed_of (enter t_start c) t_end
   \<and> records (snd (exit_ctx (enter t_start c) t_end exc s))
       = setdefault_append (ctx_task c) (max 0 (t_end - t_start)) (records s)"
  by (simp add: elapsed_of_enter records_exit_ctx) (simp add: enter_def)

theorem exit_elapsed_clamped_witness:
  "elapsed_of (enter 5 \<lparr>ctx_task = ''A'', ctx_level_name = ''INFO'', t0 = None\<rparr>) 3 = 0
   \<and> records (snd (exit_ctx (enter 5 \<lparr>ctx_task = ''A'', ctx_level_name = ''INFO'', t0 = None\<rparr>)
                  3 None new_tracker)) = [(''A'', [0])]
   \<and> elapsed_of (enter 3 \<lparr>ctx_task = ''A'', ctx_level_name = ''INFO'', t0 = None\<rparr>) 5 = 2"
  using exit_elapsed_clamped [of 5 "\<lparr>ctx_task = ''A'', ctx_level_name = ''INFO'', t0 = None\<rparr>" 3
      None new_tracker]
    exit_elapsed_clamped [of 3 "\<lparr>ctx_task = ''A'', ctx_level_name = ''INFO'', t0 = None\<rparr>" 5
      None new_tracker]
  by (simp add: new_tracker_def)

text \<open>Among the characters of the model the whitespace ones are these twelve.\<close>

lemma is_space_chars:
  "is_space c \<longleftrightarrow>
     c \<in> set [CHR 0x09, CHR 0x0A, CHR 0x0B, CHR 0x0C, CHR 0x0D, CHR 0x1C, CHR 0x1D, CHR 0x1E,
               CHR 0x1F, CHR '' '', CHR 0x85, CHR 0xA0]"
  by (cases c) (simp add: is_space_def py_whitespace_def; auto)

lemma strip_empty_iff: "strip t = [] \<longleftrightarrow> (\<forall>c\<in>set t. is_space c)"
proof
  assume "strip t = []"
  then have a: "\<forall>x\<in>set (dropWhile is_space t). is_space x"
    by (simp add: strip_def dropWhile_eq_Nil_conv)
  have "dropWhile is_space t = []"
  proof (rule ccontr)
    assume n: "dropWhile is_space t \<noteq> []"
    then have "\<not> is_space (hd (dropWhile is_space t))"
      by (rule hd_dropWhile)
    moreover have "hd (dropWhile is_space t) \<in> set (dropWhile is_space t)"
      using n by simp
    ultimately show False
      using a by blast
  qed
  then show "\<forall>c\<in>set t. is_space c"
    by (simp add: dropWhile_eq_Nil_conv)
next
  assume "\<forall>c\<in>set t. is_space c"
  then have d: "dropWhile is_space t = []"
    by (simp add: dropWhile_eq_Nil_conv)
  show "strip t = []"
    by (simp only: strip_def d dropWhile.simps rev.simps)
qed

text \<open>
  Claim C7. For every task name that is empty or consists of whitespace only (the
  characters \<^verbatim>\<open>str.strip()\<close> removes: the ASCII ones and also the next-line character
  \<open>0x85\<close> and the no-break space \<open>0xA0\<close>), each of the
  seven entry points (\<^verbatim>\<open>trace\<close>, \<^verbatim>\<open>debug\<close>, \<^verbatim>\<open>info\<close>, \<^verbatim>\<open>success\<close>, \<^verbatim>\<open>warning\<close>,
  \<^verbatim>\<open>error\<close>, \<^verbatim>\<open>critical\<close>) raises \<^verbatim>\<open>ValueError\<close>; a \<^verbatim>\<open>with\<close> statement on it
  raises that error before the clock is read or the guarded block is run, and the tracker,
  with its Sample Store, is left as it was.
\<close>

theorem blank_task_rejected:
  assumes "\<forall>c\<in>set t. is_space c"
  shows "\<forall>entry\<in>set [trace, debug, info, success, warning, error, critical].
           entry t = Raised (Exn ''ValueError'' ''task name must be a non-empty string'')
           \<and> with_block (entry t) t_enter t_exit body s
               = (Raised (Exn ''ValueError'' ''task name must be a non-empty string''), s)"
  using assms strip_empty_iff [of t]
  by (simp add: trace_def debug_def info_def success_def warning_def error_def critical_def
      ctx_def with_block_def)

theorem blank_task_rejected_witness:
  "info [CHR '' '', CHR 0x09, CHR 0xA0, CHR 0x85]
     = Raised (Exn ''ValueError'' ''task name must be a non-empty string'')
   \<and> with_block (info [CHR '' '', CHR 0x09, CHR 0xA0, CHR 0x85]) 1 2
        (\<lambda>s. (Returned (), s\<lparr>records := [(''X'', [1])]\<rparr>)) new_tracker
       = (Raised (Exn ''ValueError'' ''task name must be a non-empty string''), new_tracker)
   \<and> critical [] = Raised (Exn ''ValueError'' ''task name must be a non-empty string'')"
  using blank_task_rejected [of "[CHR '' '', CHR 0x09, CHR 0xA0, CHR 0x85]" 1 2
      "\<lambda>s. (Returned (), s\<lparr>records := [(''X'', [1])]\<rparr>)" new_tracker]
    blank_task_rejected [of "[]" 1 2 "\<lambda>s. (Returned (), s)" new_tracker]
  by (simp add: is_space_def py_whitespace_def with_block_def)

section \<open>Summary: rejection of an unknown sort key\<close>

text \<open>
  Claim C8. For every \<open>sort_by\<close> outside \<open>total\<close>, \<open>avg\<close>, \<open>count\<close>, \<open>max\<close>, \<open>min\<close>, \<open>task\<close>,
  \<^verbatim>\<open>summary\<close> raises \<^verbatim>\<open>ValueError\<close> and leaves the whole tracker as it was: nothing is
  emitted through the logger and the Sample Store is unchanged, also with \<open>reset\<close>.
\<close>

theorem summary_bad_sort_key:
  assumes "sort_by \<notin> {''total'', ''avg'', ''count'', ''max'', ''min'', ''task''}"
  shows "summary sort_by descending limit reset title s
         = (Raised (Exn ''ValueError'' ''sort_by must be one of: total, avg, count, max, min, task''), s)"
  using assms by (simp add: summary_def key_names_def)

theorem summary_bad_sort_key_witness:
  "summary ''median'' True None True ''T'' (new_tracker\<lparr>records := [(''A'', [1])]\<rparr>)
   = (Raised (Exn ''ValueError'' ''sort_by must be one of: total, avg, count, max, min, task''),
      new_tracker\<lparr>records := [(''A'', [1])]\<rparr>)"
  using summary_bad_sort_key [of "''median''" True None True "''T''"
      "new_tracker\<lparr>records := [(''A'', [1])]\<rparr>"]
  by simp

section \<open>Rendering of durations\<close>

text \<open>
  Claim C9. A sample of 1.234 seconds is rendered as \<open>1234.000 ms\<close> once \<^verbatim>\<open>time_unit\<close> is
  configured to \<open>ms\<close> and as \<open>1.234000 s\<close> under the unit \<open>s\<close>, which is the default of
  a new tracker. The unit affects rendering only: configuring it leaves the stored
  samples as they are, and \<^verbatim>\<open>_record\<close> stores the elapsed seconds it is given whatever
  the unit is.
\<close>

theorem fmt_time_units:
  "fmt_time (snd (configure None (Some (PStr ''ms'')) None s)) (1234 / 1000) = ''1234.000 ms''
   \<and> fmt_time (snd (configure None (Some (PStr ''s'')) None s)) (1234 / 1000) = ''1.234000 s''
   \<and> fmt_time new_tracker (1234 / 1000) = ''1.234000 s''
   \<and> records (snd (configure ee tu sl s)) = records s
   \<and> records (snd (record_sample t x lvl exc (snd (configure None (Some (PStr u)) None s))))
       = setdefault_append t x (records s)"
proof -
  have a: "fmt_time (snd (configure None (Some (PStr ''ms'')) None s)) (1234 / 1000) = ''1234.000 ms''"
    by (simp add: configure_def Let_def fmt_eval)
  have b: "fmt_time (snd (configure None (Some (PStr ''s'')) None s)) (1234 / 1000) = ''1.234000 s''"
    by (simp add: configure_def Let_def fmt_eval)
  have c: "fmt_time new_tracker (1234 / 1000) = ''1.234000 s''"
    by (simp add: new_tracker_def fmt_eval)
  have d: "records (snd (configure ee' tu' sl' s)) = records s" for ee' tu' sl'
    by (simp add: configure_def Let_def split: option.splits outcome.splits)
  have e: "records (snd (record_sample t x lvl exc (snd (configure None (Some (PStr u)) None s))))
       = setdefault_append t x (records s)"
    by (simp only: records_record_sample d)
  from a b c d e show ?thesis by blast
qed

theorem fmt_time_units_witness:
  "fmt_time (snd (configure None (Some (PStr ''ms'')) None new_tracker)) (1234 / 1000) = ''1234.000 ms''
   \<and> records (snd (record_sample ''A'' (1234 / 1000) ''INFO'' None
         (snd (configure None (Some (PStr ''ms'')) None new_tracker)))) = [(''A'', [1234 / 1000])]"
  using fmt_time_units [of new_tracker None None None "''A''" "1234 / 1000" "''INFO''" None "''ms''"]
  by (simp add: new_tracker_def)

section \<open>Configuration\<close>

lemma configure_accepted:
  assumes "tu \<in> {None, Some (PStr ''ms''), Some (PStr ''s'')}"
  shows "configure ee tu sl s =
    (let s' = s\<lparr>emit_each := (case ee of None \<Rightarrow> emit_each s | Some v \<Rightarrow> py_bool v),
                time_unit := (case tu of None \<Rightarrow> time_unit s | Some u \<Rightarrow> py_str u),
                summary_level := (case sl of None \<Rightarrow> summary_level s | Some v \<Rightarrow> py_str v)\<rparr>
     in (Returned s', s'))"
  using assms by (auto simp: configure_def Let_def split: option.splits)

lemma configure_rejected:
  assumes "tu \<notin> {None, Some (PStr ''ms''), Some (PStr ''s'')}"
  shows "configure ee tu sl s =
    (Raised time_unit_error, s\<lparr>emit_each := (case ee of None \<Rightarrow> emit_each s | Some v \<Rightarrow> py_bool v)\<rparr>)"
  using assms by (auto simp: configure_def Let_def split: option.splits)

text \<open>
  Claim C4, as stated, fails: \<^verbatim>\<open>configure(emit_each=True, time_unit="min", summary_level="DEBUG")\<close>
  on a new tracker raises \<^verbatim>\<open>ValueError\<close>, and \<^verbatim>\<open>emit_each\<close>, assigned before
  \<^verbatim>\<open>time_unit\<close> is checked, is \<open>True\<close> afterwards although it was \<open>False\<close> before.
\<close>

theorem configure_rejected_changes_emit_each:
  "fst (configure (Some (PBool True)) (Some (PStr ''min'')) (Some (PStr ''DEBUG'')) new_tracker)
     = Raised time_unit_error
   \<and> emit_each new_tracker = False
   \<and> emit_each (snd (configure (Some (PBool True)) (Some (PStr ''min'')) (Some (PStr ''DEBUG''))
                       new_tracker)) = True"
  by (simp add: configure_def new_tracker_def)

text \<open>
  Claim C4, amended. \<^verbatim>\<open>configure\<close> accepts a \<^verbatim>\<open>time_unit\<close> that is absent, \<open>ms\<close> or \<open>s\<close>
  and rejects every other value with \<^verbatim>\<open>ValueError\<close>. A rejected call leaves
  \<^verbatim>\<open>time_unit\<close>, \<^verbatim>\<open>summary_level\<close> (also one passed in the same call), the Sample Store
  and the logger unchanged, and the whole tracker unchanged when no \<^verbatim>\<open>emit_each\<close> was
  passed in that call. A successful call returns the tracker itself, in the state in which
  every field that was passed is updated.
\<close>

theorem configure_validates_time_unit:
  "(tu \<notin> {None, Some (PStr ''ms''), Some (PStr ''s'')} \<longrightarrow>
      (\<exists>s'. configure ee tu sl s = (Raised time_unit_error, s')
         \<and> time_unit s' = time_unit s \<and> summary_level s' = summary_level s
         \<and> records s' = records s \<and> logger s' = logger s
         \<and> (ee = None \<longrightarrow> s' = s)))
   \<and> (tu \<in> {None, Some (PStr ''ms''), Some (PStr ''s'')} \<longrightarrow>
      (\<exists>s'. configure ee tu sl s = (Returned s', s')
         \<and> emit_each s' = (case ee of None \<Rightarrow> emit_each s | Some v \<Rightarrow> py_bool v)
         \<and> time_unit s' = (case tu of None \<Rightarrow> time_unit s | Some u \<Rightarrow> py_str u)
         \<and> summary_level s' = (case sl of None \<Rightarrow> summary_level s | Some v \<Rightarrow> py_str v)
         \<and> records s' = records s \<and> logger s' = logger s))"
proof (intro conjI impI)
  assume r: "tu \<notin> {None, Some (PStr ''ms''), Some (PStr ''s'')}"
  show "\<exists>s'. configure ee tu sl s = (Raised time_unit_error, s')
         \<and> time_unit s' = time_unit s \<and> summary_level s' = summary_level s
         \<and> records s' = records s \<and> logger s' = logger s
         \<and> (ee = None \<longrightarrow> s' = s)"
    by (simp add: configure_rejected [OF r])
next
  assume a: "tu \<in> {None, Some (PStr ''ms''), Some (PStr ''s'')}"
  show "\<exists>s'. configure ee tu sl s = (Returned s', s')
         \<and> emit_each s' = (case ee of None \<Rightarrow> emit_each s | Some v \<Rightarrow> py_bool v)
         \<and> time_unit s' = (case tu of None \<Rightarrow> time_unit s | Some u \<Rightarrow> py_str u)
         \<and> summary_level s' = (case sl of None \<Rightarrow> summary_level s | Some v \<Rightarrow> py_str v)
         \<and> records s' = records s \<and> logger s' = logger s"
    by (simp add: configure_accepted [OF a] Let_def)
qed

theorem configure_validates_time_unit_witness:
  "(\<exists>s'. configure None (Some (PStr ''min'')) (Some (PStr ''DEBUG'')) new_tracker
            = (Raised time_unit_error, s') \<and> s' = new_tracker)
   \<and> (\<exists>s'. configure (Some (PInt 1)) (Some (PStr ''ms'')) (Some (PStr ''DEBUG'')) new_tracker
            = (Returned s', s')
          \<and> emit_each s' = True \<and> time_unit s' = ''ms'' \<and> summary_level s' = ''DEBUG'')"
  using configure_validates_time_unit [of "Some (PStr ''min'')" None "Some (PStr ''DEBUG'')" new_tracker]
    configure_validates_time_unit [of "Some (PStr ''ms'')" "Some (PInt 1)" "Some (PStr ''DEBUG'')"
      new_tracker]
  by auto

text \<open>
  Claim C10. \<^verbatim>\<open>summary_level\<close> is never validated by \<^verbatim>\<open>configure\<close>: whatever value is
  passed for it, a call whose \<^verbatim>\<open>time_unit\<close> is absent or valid succeeds and stores the
  value coerced to a string. A level the logger does not know fails only later: the next
  \<^verbatim>\<open>summary\<close> raises the logger's error when it emits, having emitted nothing and cleared
  nothing.
\<close>

theorem summary_level_not_validated:
  assumes "tu \<in> {None, Some (PStr ''ms''), Some (PStr ''s'')}"
  shows "\<exists>s'. configure ee tu (Some v) s = (Returned s', s')
    \<and> summary_level s' = py_str v
    \<and> (sort_by \<in> set key_names \<and> py_str v \<notin> set (levels (logger s)) \<longrightarrow>
         summary sort_by descending limit reset title s'
           = (Raised (level_error (py_str v)), s'))"
proof -
  let ?s' = "s\<lparr>emit_each := (case ee of None \<Rightarrow> emit_each s | Some b \<Rightarrow> py_bool b),
                time_unit := (case tu of None \<Rightarrow> time_unit s | Some u \<Rightarrow> py_str u),
                summary_level := py_str v\<rparr>"
  have c: "configure ee tu (Some v) s = (Returned ?s', ?s')"
    by (simp add: configure_accepted [OF assms] Let_def)
  have "summary sort_by descending limit reset title ?s'
           = (Raised (level_error (py_str v)), ?s')"
    if "sort_by \<in> set key_names" and "py_str v \<notin> set (levels (logger s))"
    using that by (simp add: summary_def Let_def logger_log_def summary_record_def)
  with c show ?thesis by simp
qed

theorem summary_level_not_validated_witness:
  "\<exists>s'. configure None None (Some (PInt 10)) new_tracker = (Returned s', s')
    \<and> summary_level s' = ''10''
    \<and> summary ''total'' True None True ''T'' s'
         = (Raised (level_error ''10''), s')"
  using summary_level_not_validated [of None None "PInt 10" new_tracker "''total''" True None True "''T''"]
  by (simp add: key_names_def new_tracker_def std_logger_def std_levels_def str_int_def
      str_nat_small str_nat_big digit_char_def)

section \<open>Errors in the guarded block\<close>

lemma exit_ctx_outcome:
  "fst (exit_ctx c t1 exc s) =
     (if emit_each s \<and> ctx_level_name c \<notin> set (levels (logger s))
      then Raised (level_error (ctx_level_name c))
      else Returned False)"
  by (simp add: exit_ctx_def record_sample_def Let_def logger_log_def record_event_def)

text \<open>
  Claim C2, as stated, fails. A tracker may be built on any compatible logger. On one
  that knows no level \<open>SUCCESS\<close>, with \<^verbatim>\<open>emit_each\<close> on, a block timed by
  \<^verbatim>\<open>tracker.success("load")\<close> that raises \<^verbatim>\<open>KeyError\<close> does not deliver that error to the
  caller: \<^verbatim>\<open>_record\<close>, called by \<^verbatim>\<open>__exit__\<close>, emits the event, the logger raises
  \<^verbatim>\<open>ValueError\<close>, and that is the error the caller gets.
\<close>

theorem guarded_error_replaced_by_logger_error:
  "failing_body (new_tracker\<lparr>logger := plain_logger, emit_each := True\<rparr>)
     = (Raised (Exn ''KeyError'' ''k''), new_tracker\<lparr>logger := plain_logger, emit_each := True\<rparr>)
   \<and> fst (with_block (success ''load'') 3 5 failing_body
             (new_tracker\<lparr>logger := plain_logger, emit_each := True\<rparr>))
       = Raised (level_error ''SUCCESS'')
   \<and> level_error ''SUCCESS'' \<noteq> Exn ''KeyError'' ''k''"
  by (simp add: failing_body_def with_block_def success_def ctx_def strip_def is_space_def
      py_whitespace_def enter_def exit_ctx_def record_sample_def logger_log_def record_event_def
      plain_logger_def new_tracker_def level_error_def Let_def)

text \<open>
  Claim C2, amended. When the guarded block of a Scoped Timer raises an error, the sample
  of that invocation is appended to the Sample Store: it becomes the last sample of the
  timer's task, after the samples the task had, the other tasks keep theirs, and the task
  is added after the existing ones if it is new. The \<^verbatim>\<open>with\<close> statement never completes
  normally, so the release does not suppress the error. The error that reaches the
  caller is the one the block raised, unchanged, unless the release's own emission fails
  (\<^verbatim>\<open>emit_each\<close> is on and the logger rejects the timer's level); then it is the logger's
  error.
\<close>

theorem guarded_error_propagates:
  assumes "body s = (Raised e, s1)"
  shows "map_of (records (snd (with_block (Returned c) t_enter t_exit body s))) (ctx_task c)
           = Some ((case map_of (records s1) (ctx_task c) of None \<Rightarrow> [] | Some d \<Rightarrow> d)
                   @ [max 0 (t_exit - t_enter)])
    \<and> (\<forall>k. k \<noteq> ctx_task c \<longrightarrow>
          map_of (records (snd (with_block (Returned c) t_enter t_exit body s))) k
            = map_of (records s1) k)
    \<and> map fst (records (snd (with_block (Returned c) t_enter t_exit body s)))
         = (if ctx_task c \<in> fst ` set (records s1) then map fst (records s1)
            else map fst (records s1) @ [ctx_task c])
    \<and> (\<forall>v. fst (with_block (Returned c) t_enter t_exit body s) \<noteq> Returned v)
    \<and> fst (with_block (Returned c) t_enter t_exit body s)
         = (if emit_each s1 \<and> ctx_level_name c \<notin> set (levels (logger s1))
            then Raised (level_error (ctx_level_name c)) else Raised e)"
proof -
  let ?c1 = "enter t_enter c"
  let ?x = "exit_ctx ?c1 t_exit (Some (exn_type e)) s1"
  let ?w = "with_block (Returned c) t_enter t_exit body s"
  have w: "?w =
      (case ?x of (Raised e', s2) \<Rightarrow> (Raised e', s2)
               | (Returned b, s2) \<Rightarrow> (if b then (Returned None, s2) else (Raised e, s2)))"
    using assms by (simp add: with_block_def)
  have r: "records (snd ?x) = setdefault_append (ctx_task c) (max 0 (t_exit - t_enter)) (records s1)"
    by (simp add: records_exit_ctx elapsed_of_enter) (simp add: enter_def)
  have o: "fst ?x = (if emit_each s1 \<and> ctx_level_name c \<notin> set (levels (logger s1))
      then Raised (level_error (ctx_level_name c))
      else Returned False)"
    by (simp add: exit_ctx_outcome) (simp add: enter_def)
  obtain r' s2 where x: "?x = (r', s2)" by (cases ?x)
  from r x have r2: "records s2 = setdefault_append (ctx_task c) (max 0 (t_exit - t_enter)) (records s1)"
    by simp
  from o x have o2: "r' = (if emit_each s1 \<and> ctx_level_name c \<notin> set (levels (logger s1))
      then Raised (level_error (ctx_level_name c))
      else Returned False)"
    by simp
  have rec: "records (snd ?w) = setdefault_append (ctx_task c) (max 0 (t_exit - t_enter)) (records s1)"
    unfolding w x using r2 o2 by (simp split: if_splits)
  have out: "fst ?w = (if emit_each s1 \<and> ctx_level_name c \<notin> set (levels (logger s1))
            then Raised (level_error (ctx_level_name c)) else Raised e)"
    unfolding w x using o2 by (simp split: if_splits)
  have a: "map_of (records (snd ?w)) (ctx_task c)
           = Some ((case map_of (records s1) (ctx_task c) of None \<Rightarrow> [] | Some d \<Rightarrow> d)
                   @ [max 0 (t_exit - t_enter)])"
    by (simp add: rec map_of_setdefault_append)
  have b: "\<forall>k. k \<noteq> ctx_task c \<longrightarrow> map_of (records (snd ?w)) k = map_of (records s1) k"
    by (simp add: rec map_of_setdefault_append)
  have k: "map fst (records (snd ?w))
         = (if ctx_task c \<in> fst ` set (records s1) then map fst (records s1)
            else map fst (records s1) @ [ctx_task c])"
    by (simp only: rec keys_setdefault_append)
  have n: "\<forall>v. fst ?w \<noteq> Returned v"
    by (simp add: out)
  show ?thesis
    by (intro conjI a b k n out)
qed

theorem guarded_error_propagates_witness:
  "map_of (records (snd (with_block (info ''load'') 3 5 failing_body
       (new_tracker\<lparr>records := [(''load'', [1])], emit_each := True\<rparr>)))) ''load''
     = Some [1, 2]
   \<and> fst (with_block (info ''load'') 3 5 failing_body
       (new_tracker\<lparr>records := [(''load'', [1])], emit_each := True\<rparr>))
     = Raised (Exn ''KeyError'' ''k'')"
proof -
  have i: "info ''load'' = Returned \<lparr>ctx_task = ''load'', ctx_level_name = ''INFO'', t0 = None\<rparr>"
    by (simp add: info_def ctx_def strip_def is_space_def py_whitespace_def)
  have f: "failing_body (new_tracker\<lparr>records := [(''load'', [1])], emit_each := True\<rparr>)
      = (Raised (Exn ''KeyError'' ''k''), new_tracker\<lparr>records := [(''load'', [1])], emit_each := True\<rparr>)"
    by (simp add: failing_body_def)
  show ?thesis
    using f guarded_error_propagates [of failing_body
        "new_tracker\<lparr>records := [(''load'', [1])], emit_each := True\<rparr>" "Exn ''KeyError'' ''k''"
        "new_tracker\<lparr>records := [(''load'', [1])], emit_each := True\<rparr>"
        "\<lparr>ctx_task = ''load'', ctx_level_name = ''INFO'', t0 = None\<rparr>" 3 5]
    by (simp add: i new_tracker_def std_logger_def std_levels_def)
qed

section \<open>Sorting\<close>

lemma count_list_insort_key: "count_list (insort_key f x xs) y = count_list (x # xs) y"
  by (induction xs) auto

lemma count_list_sort_key: "count_list (sort_key f xs) y = count_list xs y"
  by (induction xs) (simp_all add: count_list_insort_key)

lemma count_list_py_sort: "count_list (py_sort f r xs) y = count_list xs y"
  by (simp add: py_sort_def count_list_sort_key)

lemma length_py_sort: "length (py_sort f r xs) = length xs"
  by (simp add: py_sort_def)

lemma sorted_sort_key_wrt: "sorted_wrt (\<lambda>a b. f a \<le> f b) (sort_key f xs)"
  using sorted_sort_key [of f xs] by (simp add: sorted_map)

lemma sorted_py_sort:
  "sorted_wrt (\<lambda>a b. if r then f b \<le> f a else f a \<le> f b) (py_sort f r xs)"
proof (cases r)
  case True
  have "sorted_wrt (\<lambda>a b. f b \<le> f a) (rev (sort_key f (rev xs)))"
    using sorted_sort_key_wrt [of f "rev xs"] by (simp add: sorted_wrt_rev)
  with True show ?thesis by (simp add: py_sort_def)
next
  case False
  then show ?thesis by (simp add: py_sort_def sorted_sort_key_wrt)
qed

lemma ordered_by_sort_stats:
  "sorted_wrt (ordered_by sort_by descending) (sort_stats sort_by descending xs)"
proof -
  have e: "ordered_by sort_by descending =
      (if sort_by = ''total'' then (\<lambda>a b. if descending then total_s b \<le> total_s a else total_s a \<le> total_s b)
       else if sort_by = ''avg'' then (\<lambda>a b. if descending then avg_s b \<le> avg_s a else avg_s a \<le> avg_s b)
       else if sort_by = ''count'' then (\<lambda>a b. if descending then count b \<le> count a else count a \<le> count b)
       else if sort_by = ''max'' then (\<lambda>a b. if descending then max_s b \<le> max_s a else max_s a \<le> max_s b)
       else if sort_by = ''min'' then (\<lambda>a b. if descending then min_s b \<le> min_s a else min_s a \<le> min_s b)
       else (\<lambda>a b. if descending then lower (task b) \<le> lower (task a)
                    else lower (task a) \<le> lower (task b)))"
    by (intro ext) (simp add: ordered_by_def Let_def)
  show ?thesis
    unfolding e sort_stats_def by (simp add: sorted_py_sort)
qed

lemma count_list_sort_stats: "count_list (sort_stats sort_by descending xs) y = count_list xs y"
  by (simp add: sort_stats_def count_list_py_sort)

lemma length_sort_stats: "length (sort_stats sort_by descending xs) = length xs"
  by (simp add: sort_stats_def length_py_sort)

section \<open>Summary\<close>

lemma summary_accepted:
  assumes "sort_by \<in> set key_names" and "summary_level s \<in> set (levels (logger s))"
  shows "summary sort_by descending limit reset title s =
    (let rendered = render_summary s (limit_stats limit (sort_stats sort_by descending (compute_stats s))) title;
         s1 = s\<lparr>logger := (logger s)\<lparr>emitted := emitted (logger s) @ [summary_record s rendered]\<rparr>\<rparr>
     in (Returned rendered, if reset then clear s1 else s1))"
  using assms by (simp add: summary_def Let_def logger_log_def summary_record_def)

lemma render_summary_lines:
  "render_summary s rows title =
     join [CHR 0x0A] ([title, rule_line (max 24 (length title))] @
       (if rows = [] then [''(no data)'']
        else [header, rule_line (length header)] @ map (row s) rows @
             [rule_line (length header),
              ljust 30 ''TOTAL (all tasks)'' @ ''  '' @ replicate 7 (CHR '' '') @ ''  ''
                @ rjust 14 (fmt_time s (sum_list (map total_s rows)))]))"
  by (simp add: render_summary_def total_row_def py_sum_sum_list ljust_def)

lemma abc_sorted:
  "sort_stats ''total'' True (compute_stats abc_tracker) =
     [\<lparr>task = ''A'', count = 2, total_s = 5, avg_s = 5 / 2, min_s = 2, max_s = 3, last_s = 3\<rparr>,
      \<lparr>task = ''C'', count = 1, total_s = 3, avg_s = 3, min_s = 3, max_s = 3, last_s = 3\<rparr>,
      \<lparr>task = ''B'', count = 1, total_s = 1, avg_s = 1, min_s = 1, max_s = 1, last_s = 1\<rparr>]"
  by (simp add: sort_stats_def compute_stats_def abc_tracker_def new_tracker_def py_sort_def
      py_sum_def py_min_def py_max_def)

lemma abc_level: "summary_level abc_tracker \<in> set (levels (logger abc_tracker))"
  by (simp add: abc_tracker_def new_tracker_def std_logger_def std_levels_def)

lemmas fixed_eval = fmt_fixed_def round_half_even_def zfill_def str_nat_small str_nat_big
  digit_char_def replicate_num

lemma abc_unit: "fmt_time abc_tracker x = fmt_fixed 6 x @ '' s''"
  by (simp add: fmt_time_def abc_tracker_def new_tracker_def)

text \<open>
  Claim C5. With a recognised \<open>sort_by\<close> (and a \<^verbatim>\<open>summary_level\<close> the logger accepts)
  \<^verbatim>\<open>summary\<close> orders the per-task records by the requested key in the requested
  direction, without adding or dropping a record, and then keeps the first \<open>limit\<close> of
  them when a limit is given; a limit \<open>\<le> 0\<close> keeps none and gives the \<open>(no data)\<close> table,
  not an error. The returned table has one row for each record kept, in that order, and
  its last line shows the sum of \<open>total\<close> over exactly the records kept.
\<close>

theorem summary_sorted_limited_total:
  assumes "sort_by \<in> set key_names" and "summary_level s \<in> set (levels (logger s))"
  shows "\<exists>ordered rows.
      ordered = sort_stats sort_by descending (compute_stats s)
    \<and> sorted_wrt (ordered_by sort_by descending) ordered
    \<and> (\<forall>r. count_list ordered r = count_list (compute_stats s) r)
    \<and> rows = (case limit of None \<Rightarrow> ordered | Some l \<Rightarrow> take (nat l) ordered)
    \<and> (\<forall>l. limit = Some l \<and> l \<le> 0 \<longrightarrow> rows = [])
    \<and> fst (summary sort_by descending limit reset title s) =
        Returned (join [CHR 0x0A] ([title, rule_line (max 24 (length title))] @
          (if rows = [] then [''(no data)'']
           else [header, rule_line (length header)] @ map (row s) rows @
                [rule_line (length header),
                 ljust 30 ''TOTAL (all tasks)'' @ ''  '' @ replicate 7 (CHR '' '') @ ''  ''
                   @ rjust 14 (fmt_time s (sum_list (map total_s rows)))])))"
proof -
  let ?sorted = "sort_stats sort_by descending (compute_stats s)"
  let ?rows = "case limit of None \<Rightarrow> ?sorted | Some l \<Rightarrow> take (nat l) ?sorted"
  have n: "nat (max 0 x) = nat x" for x :: int
    by (simp add: max_def)
  have l: "limit_stats limit ?sorted = ?rows"
    by (simp add: limit_stats_def n split: option.splits)
  have r: "fst (summary sort_by descending limit reset title s) = Returned (render_summary s ?rows title)"
    by (simp add: summary_accepted [OF assms] Let_def l)
  have z: "\<forall>l. limit = Some l \<and> l \<le> 0 \<longrightarrow> ?rows = []"
    by auto
  have r': "fst (summary sort_by descending limit reset title s) =
        Returned (join [CHR 0x0A] ([title, rule_line (max 24 (length title))] @
          (if ?rows = [] then [''(no data)'']
           else [header, rule_line (length header)] @ map (row s) ?rows @
                [rule_line (length header),
                 ljust 30 ''TOTAL (all tasks)'' @ ''  '' @ replicate 7 (CHR '' '') @ ''  ''
                   @ rjust 14 (fmt_time s (sum_list (map total_s ?rows)))])))"
    using r by (simp only: render_summary_lines)
  have o: "sorted_wrt (ordered_by sort_by descending) ?sorted"
    by (rule ordered_by_sort_stats)
  have c: "\<forall>r. count_list ?sorted r = count_list (compute_stats s) r"
    by (simp add: count_list_sort_stats)
  show ?thesis
    by (rule exI [of _ ?sorted], rule exI [of _ ?rows], intro conjI refl o c z r')
qed

theorem summary_sorted_limited_total_witness:
  "(\<exists>rows. map task rows = [''A'', ''C'', ''B'']
      \<and> fst (summary ''total'' True None False ''T'' abc_tracker)
          = Returned (render_summary abc_tracker rows ''T'')
      \<and> total_row abc_tracker rows = ''TOTAL (all tasks)                            9.000000 s'')
   \<and> (\<exists>rows. map task rows = [''A'', ''C'']
      \<and> fst (summary ''total'' True (Some 2) False ''T'' abc_tracker)
          = Returned (render_summary abc_tracker rows ''T'')
      \<and> total_row abc_tracker rows = ''TOTAL (all tasks)                            8.000000 s'')
   \<and> fst (summary ''total'' True (Some 0) False ''T'' abc_tracker)
       = Returned (join [CHR 0x0A] [''T'', ''------------------------'', ''(no data)''])"
proof -
  have k: "''total'' \<in> set key_names"
    by (simp add: key_names_def)
  have t9: "total_row abc_tracker (sort_stats ''total'' True (compute_stats abc_tracker))
      = ''TOTAL (all tasks)                            9.000000 s''"
    by (simp add: abc_sorted total_row_def py_sum_def abc_unit ljust_def rjust_def fixed_eval)
  have t8: "total_row abc_tracker (take 2 (sort_stats ''total'' True (compute_stats abc_tracker)))
      = ''TOTAL (all tasks)                            8.000000 s''"
    by (simp add: abc_sorted total_row_def py_sum_def abc_unit ljust_def rjust_def fixed_eval)
  have a: "\<exists>rows. map task rows = [''A'', ''C'', ''B'']
      \<and> fst (summary ''total'' True None False ''T'' abc_tracker)
          = Returned (render_summary abc_tracker rows ''T'')
      \<and> total_row abc_tracker rows = ''TOTAL (all tasks)                            9.000000 s''"
  proof -
    from summary_sorted_limited_total [OF k abc_level, of True "None" False "''T''"]
    obtain ordered rows where s: "ordered = sort_stats ''total'' True (compute_stats abc_tracker)"
      and rw: "rows = (case None of None \<Rightarrow> ordered | Some l \<Rightarrow> take (nat l) ordered)"
      and f: "fst (summary ''total'' True None False ''T'' abc_tracker) =
        Returned (join [CHR 0x0A] ([''T'', rule_line (max 24 (length ''T''))] @
          (if rows = [] then [''(no data)'']
           else [header, rule_line (length header)] @ map (row abc_tracker) rows @
                [rule_line (length header),
                 ljust 30 ''TOTAL (all tasks)'' @ ''  '' @ replicate 7 (CHR '' '') @ ''  ''
                   @ rjust 14 (fmt_time abc_tracker (sum_list (map total_s rows)))])))"
      by blast
    have rows: "rows = sort_stats ''total'' True (compute_stats abc_tracker)"
      using s rw by simp
    have f': "fst (summary ''total'' True None False ''T'' abc_tracker)
        = Returned (render_summary abc_tracker rows ''T'')"
      using f by (simp only: render_summary_lines)
    have m: "map task rows = [''A'', ''C'', ''B'']"
      by (simp add: rows abc_sorted)
    have t: "total_row abc_tracker rows = ''TOTAL (all tasks)                            9.000000 s''"
      by (simp only: rows t9)
    show ?thesis
      by (intro exI [of _ rows] conjI m f' t)
  qed
  have b: "\<exists>rows. map task rows = [''A'', ''C'']
      \<and> fst (summary ''total'' True (Some 2) False ''T'' abc_tracker)
          = Returned (render_summary abc_tracker rows ''T'')
      \<and> total_row abc_tracker rows = ''TOTAL (all tasks)                            8.000000 s''"
  proof -
    from summary_sorted_limited_total [OF k abc_level, of True "Some 2" False "''T''"]
    obtain ordered rows where s: "ordered = sort_stats ''total'' True (compute_stats abc_tracker)"
      and rw: "rows = (case Some 2 of None \<Rightarrow> ordered | Some l \<Rightarrow> take (nat l) ordered)"
      and f: "fst (summary ''total'' True (Some 2) False ''T'' abc_tracker) =
        Returned (join [CHR 0x0A] ([''T'', rule_line (max 24 (length ''T''))] @
          (if rows = [] then [''(no data)'']
           else [header, rule_line (length header)] @ map (row abc_tracker) rows @
                [rule_line (length header),
                 ljust 30 ''TOTAL (all tasks)'' @ ''  '' @ replicate 7 (CHR '' '') @ ''  ''
                   @ rjust 14 (fmt_time abc_tracker (sum_list (map total_s rows)))])))"
      by blast
    have rows: "rows = take 2 (sort_stats ''total'' True (compute_stats abc_tracker))"
      using s rw by simp
    have f': "fst (summary ''total'' True (Some 2) False ''T'' abc_tracker)
        = Returned (render_summary abc_tracker rows ''T'')"
      using f by (simp only: render_summary_lines)
    have m: "map task rows = [''A'', ''C'']"
      by (simp add: rows abc_sorted)
    have t: "total_row abc_tracker rows = ''TOTAL (all tasks)                            8.000000 s''"
      by (simp only: rows t8)
    show ?thesis
      by (intro exI [of _ rows] conjI m f' t)
  qed
  have c: "fst (summary ''total'' True (Some 0) False ''T'' abc_tracker)
       = Returned (join [CHR 0x0A] [''T'', ''------------------------'', ''(no data)''])"
    using summary_sorted_limited_total [OF k abc_level, of True "Some 0" False "''T''"]
    by (simp add: rule_line_def replicate_num)
  from a b c show ?thesis by blast
qed

lemma stats_loop_empty_iff: "stats_loop items = [] \<longleftrightarrow> (\<forall>(t, d)\<in>set items. d = [])"
  by (induction items rule: stats_loop.induct) (simp_all add: Let_def)

lemma render_no_data_iff:
  "render_summary s rows title
     = join [CHR 0x0A] [title, rule_line (max 24 (length title)), ''(no data)'']
   \<longleftrightarrow> rows = []"
  by (cases rows) (simp_all add: render_summary_def Let_def header_def ljust_def)

lemma clear_records: "records (clear s) = []"
  by (simp add: clear_def)

text \<open>
  Claim C6. A successful \<^verbatim>\<open>summary(reset=True)\<close> renders, emits and returns the table of
  the Sample Store as it was before the call: the text is that of the records computed
  from the old store, and it is not the \<open>(no data)\<close> table when the old store held a sample
  and the limit, if any, was positive. Only then is the store cleared, and any later
  \<^verbatim>\<open>summary\<close> on the same tracker, with no new samples, returns the \<open>(no data)\<close> table.
\<close>

theorem summary_reset_after_render:
  assumes "sort_by \<in> set key_names"
    and "summary_level s \<in> set (levels (logger s))"
    and "sort_by2 \<in> set key_names"
  shows "\<exists>rendered s'.
      summary sort_by descending limit True title s = (Returned rendered, s')
    \<and> rendered = render_summary s
          (limit_stats limit (sort_stats sort_by descending (compute_stats s))) title
    \<and> ((\<exists>t d. (t, d) \<in> set (records s) \<and> d \<noteq> []) \<and> (\<forall>l. limit = Some l \<longrightarrow> 0 < l) \<longrightarrow>
         rendered \<noteq> join [CHR 0x0A] [title, rule_line (max 24 (length title)), ''(no data)''])
    \<and> emitted (logger s') = emitted (logger s) @ [summary_record s rendered]
    \<and> records s' = []
    \<and> fst (summary sort_by2 descending2 limit2 reset2 title2 s')
        = Returned (join [CHR 0x0A] [title2, rule_line (max 24 (length title2)), ''(no data)''])"
proof -
  let ?rows = "limit_stats limit (sort_stats sort_by descending (compute_stats s))"
  let ?rendered = "render_summary s ?rows title"
  let ?s' = "clear (s\<lparr>logger := (logger s)\<lparr>emitted := emitted (logger s) @ [summary_record s ?rendered]\<rparr>\<rparr>)"
  have first: "summary sort_by descending limit True title s = (Returned ?rendered, ?s')"
    by (simp add: summary_accepted [OF assms(1,2)] Let_def)
  have data: "?rendered \<noteq> join [CHR 0x0A] [title, rule_line (max 24 (length title)), ''(no data)'']"
    if h: "(\<exists>t d. (t, d) \<in> set (records s) \<and> d \<noteq> []) \<and> (\<forall>l. limit = Some l \<longrightarrow> 0 < l)"
  proof -
    from h have "compute_stats s \<noteq> []"
      by (auto simp: compute_stats_def stats_loop_empty_iff)
    then have "sort_stats sort_by descending (compute_stats s) \<noteq> []"
      using length_sort_stats [of sort_by descending "compute_stats s"] by auto
    with h have "?rows \<noteq> []"
      by (auto simp: limit_stats_def split: option.splits)
    then show ?thesis
      by (simp only: render_no_data_iff not_False_eq_True)
  qed
  have em: "emitted (logger ?s') = emitted (logger s) @ [summary_record s ?rendered]"
    by (simp add: clear_def)
  have rec: "records ?s' = []"
    by (simp add: clear_def)
  have lvl: "summary_level ?s' \<in> set (levels (logger ?s'))"
    using assms(2) by (simp add: clear_def)
  have empty: "limit_stats limit2 (sort_stats sort_by2 descending2 (compute_stats ?s')) = []"
    by (simp add: compute_stats_def clear_def limit_stats_def sort_stats_def py_sort_def
        split: option.splits)
  have second: "fst (summary sort_by2 descending2 limit2 reset2 title2 ?s')
        = Returned (join [CHR 0x0A] [title2, rule_line (max 24 (length title2)), ''(no data)''])"
    by (simp only: summary_accepted [OF assms(3) lvl] Let_def fst_conv empty)
      (simp add: render_summary_def)
  show ?thesis
    using data by (intro exI [of _ ?rendered] exI [of _ ?s'] conjI first refl em rec second impI) blast
qed

theorem summary_reset_after_render_witness:
  "\<exists>rendered s'.
      summary ''total'' True None True ''T'' abc_tracker = (Returned rendered, s')
    \<and> rendered = render_summary abc_tracker
         [\<lparr>task = ''A'', count = 2, total_s = 5, avg_s = 5 / 2, min_s = 2, max_s = 3, last_s = 3\<rparr>,
          \<lparr>task = ''C'', count = 1, total_s = 3, avg_s = 3, min_s = 3, max_s = 3, last_s = 3\<rparr>,
          \<lparr>task = ''B'', count = 1, total_s = 1, avg_s = 1, min_s = 1, max_s = 1, last_s = 1\<rparr>] ''T''
    \<and> rendered \<noteq> join [CHR 0x0A] [''T'', ''------------------------'', ''(no data)'']
    \<and> records s' = []
    \<and> fst (summary ''task'' False None False ''T'' s')
        = Returned (join [CHR 0x0A] [''T'', ''------------------------'', ''(no data)''])"
proof -
  have k: "''total'' \<in> set key_names" and k2: "''task'' \<in> set key_names"
    by (simp_all add: key_names_def)
  have d: "(\<exists>t d. (t, d) \<in> set (records abc_tracker) \<and> d \<noteq> [])
      \<and> (\<forall>l. (None :: int option) = Some l \<longrightarrow> 0 < l)"
    by (simp add: abc_tracker_def new_tracker_def) blast
  have rl: "rule_line (max 24 (length ''T'')) = ''------------------------''"
    by (simp add: rule_line_def replicate_num)
  from summary_reset_after_render [OF k abc_level k2, of True None "''T''" False None False "''T''"]
  obtain rendered s' where
      a: "summary ''total'' True None True ''T'' abc_tracker = (Returned rendered, s')"
    and b: "rendered = render_summary abc_tracker
          (limit_stats None (sort_stats ''total'' True (compute_stats abc_tracker))) ''T''"
    and c: "(\<exists>t d. (t, d) \<in> set (records abc_tracker) \<and> d \<noteq> [])
          \<and> (\<forall>l. (None :: int option) = Some l \<longrightarrow> 0 < l) \<longrightarrow>
         rendered \<noteq> join [CHR 0x0A] [''T'', rule_line (max 24 (length ''T'')), ''(no data)'']"
    and e: "records s' = []"
    and f: "fst (summary ''task'' False None False ''T'' s')
        = Returned (join [CHR 0x0A] [''T'', rule_line (max 24 (length ''T'')), ''(no data)''])"
    by blast
  have b': "rendered = render_summary abc_tracker
         [\<lparr>task = ''A'', count = 2, total_s = 5, avg_s = 5 / 2, min_s = 2, max_s = 3, last_s = 3\<rparr>,
          \<lparr>task = ''C'', count = 1, total_s = 3, avg_s = 3, min_s = 3, max_s = 3, last_s = 3\<rparr>,
          \<lparr>task = ''B'', count = 1, total_s = 1, avg_s = 1, min_s = 1, max_s = 1, last_s = 1\<rparr>] ''T''"
    using b by (simp add: limit_stats_def abc_sorted)
  have c': "rendered \<noteq> join [CHR 0x0A] [''T'', ''------------------------'', ''(no data)'']"
    using c d unfolding rl by blast
  have f': "fst (summary ''task'' False None False ''T'' s')
        = Returned (join [CHR 0x0A] [''T'', ''------------------------'', ''(no data)''])"
    using f by (simp only: rl)
  show ?thesis
    by (intro exI [of _ rendered] exI [of _ s'] conjI a b' c' e f')
qed

end
